theory Spec2Isabelle
  imports Complex_Main "HOL-Library.Monad_Syntax"
begin

section \<open>Common-source to common-gate S-parameter conversion\<close>

text \<open>
  A shallow embedding of \<^verbatim>\<open>CS_To_CG_S_Params.py\<close>.

  Numbers. The program computes with IEEE doubles and complex doubles (numpy scalars).
  Here a finite double is a \<^typ>\<open>real\<close> and a finite complex double is a
  \<^typ>\<open>complex\<close>: rounding, overflow and signed zeros are not part of the model, so
  an equation proved below is the exact identity that the floating-point computation
  follows up to rounding. The phase function \<open>np.angle\<close>, whose value on the negative
  real axis is decided by a signed zero or by rounding, is a parameter of the model.

  Division. The only operation of the program that leaves the finite numbers is division.
  On numpy scalars a division by zero raises nothing: it yields a value whose real and
  imaginary parts are both infinite or not-a-number. In HOL \<open>x / 0 = 0\<close>, so division
  is modelled by \<open>cdiv\<close>, whose result \<open>None\<close> stands for such a non-finite value.
  \<open>None\<close> is absorbing, as in the option monad: once a divisor of a row was zero, the
  model gives no number to what the row computes from the quotient.
\<close>

subsection \<open>Data\<close>

text \<open>The four complex entries of a two-port matrix, in one parameter domain (S, Y or Z).\<close>

record twoport =
  p11 :: complex
  p12 :: complex
  p21 :: complex
  p22 :: complex

text \<open>
  Columns 1 to 8 of an output row: magnitude and phase in degrees of
  \<open>s11i\<close>, \<open>s21i\<close>, \<open>s12i\<close>, \<open>s22i\<close>, in this order.
\<close>

record polar =
  mag11 :: real
  ang11 :: real
  mag21 :: real
  ang21 :: real
  mag12 :: real
  ang12 :: real
  mag22 :: real
  ang22 :: real

text \<open>
  One row of the result array \<open>s\<close>: column 0 (the frequency), columns 1 to 8
  (\<open>None\<close> when a divisor of the row was zero, and the columns are then not all
  finite) and the columns from 9 on, which keep the zeros of \<open>np.zeros\<close>.
\<close>

record out_row =
  o_freq :: real
  o_sparams :: "polar option"
  o_pad :: "real list"

datatype error = IndexError

subsection \<open>The stages of the loop body of \<open>calcCommGateParam\<close>\<close>

definition cdiv :: "complex \<Rightarrow> complex \<Rightarrow> complex option" where
  "cdiv a b = (if b = 0 then None else Some (a / b))"

text \<open>Lines 51 to 54: magnitude and phase in degrees to a complex number.\<close>

definition from_polar :: "real \<Rightarrow> real \<Rightarrow> complex" where
  "from_polar m a = of_real m * exp (\<i> * of_real a * of_real pi / 180)"

definition polar_to_rect :: "real list \<Rightarrow> twoport" where
  "polar_to_rect r =
     \<lparr>p11 = from_polar (r ! 1) (r ! 2),
      p12 = from_polar (r ! 5) (r ! 6),
      p21 = from_polar (r ! 3) (r ! 4),
      p22 = from_polar (r ! 7) (r ! 8)\<rparr>"

text \<open>Lines 56 to 60: scattering to admittance.\<close>

definition del6 :: "twoport \<Rightarrow> complex" where
  "del6 s = (1 + p11 s) * (1 + p22 s) - p12 s * p21 s"

definition s_to_y :: "twoport \<Rightarrow> twoport option" where
  "s_to_y s = do {
     y11s \<leftarrow> cdiv ((1 - p11 s) * (1 + p22 s) + p12 s * p21 s) (del6 s);
     y12s \<leftarrow> cdiv (- 2 * p12 s) (del6 s);
     y21s \<leftarrow> cdiv (- 2 * p21 s) (del6 s);
     y22s \<leftarrow> cdiv ((1 + p11 s) * (1 - p22 s) + p12 s * p21 s) (del6 s);
     Some \<lparr>p11 = y11s, p12 = y12s, p21 = y21s, p22 = y22s\<rparr>
   }"

text \<open>Lines 62 to 65: common-source admittance to common-gate admittance.\<close>

definition topology :: "twoport \<Rightarrow> twoport" where
  "topology y =
     \<lparr>p11 = p11 y + p12 y + p21 y + p22 y,
      p12 = - (p12 y + p22 y),
      p21 = - (p21 y + p22 y),
      p22 = p22 y\<rparr>"

text \<open>Lines 67 to 71: admittance to scattering.\<close>

definition del2 :: "twoport \<Rightarrow> complex" where
  "del2 y = (1 + p11 y) * (1 + p22 y) - p12 y * p21 y"

definition y_to_s :: "twoport \<Rightarrow> twoport option" where
  "y_to_s y = do {
     s11 \<leftarrow> cdiv ((1 - p11 y) * (1 + p22 y) + p12 y * p21 y) (del2 y);
     s12 \<leftarrow> cdiv (- 2 * p12 y) (del2 y);
     s21 \<leftarrow> cdiv (- 2 * p21 y) (del2 y);
     s22 \<leftarrow> cdiv ((1 + p11 y) * (1 - p22 y) + p12 y * p21 y) (del2 y);
     Some \<lparr>p11 = s11, p12 = s12, p21 = s21, p22 = s22\<rparr>
   }"

text \<open>Lines 73 to 77: scattering to impedance in ohms.\<close>

definition del5 :: "twoport \<Rightarrow> complex" where
  "del5 s = (1 - p11 s) * (1 - p22 s) - p12 s * p21 s"

definition s_to_z :: "real \<Rightarrow> twoport \<Rightarrow> twoport option" where
  "s_to_z Z0 s = do {
     Z11 \<leftarrow> cdiv (of_real Z0 * ((1 + p11 s) * (1 - p22 s) + p12 s * p21 s)) (del5 s);
     Z12 \<leftarrow> cdiv (of_real Z0 * (2 * p12 s)) (del5 s);
     Z21 \<leftarrow> cdiv (of_real Z0 * (2 * p21 s)) (del5 s);
     Z22 \<leftarrow> cdiv (of_real Z0 * ((1 + p22 s) * (1 - p11 s) + p12 s * p21 s)) (del5 s);
     Some \<lparr>p11 = Z11, p12 = Z12, p21 = Z21, p22 = Z22\<rparr>
   }"

text \<open>Lines 79 to 83: the impedance of the inductor, added to the four entries.\<close>

definition Zind :: "real \<Rightarrow> real \<Rightarrow> real \<Rightarrow> complex" where
  "Zind f M L = \<i> * 2 * of_real pi * of_real f * of_real M * of_real L"

definition add_inductor :: "complex \<Rightarrow> twoport \<Rightarrow> twoport" where
  "add_inductor zi Z =
     \<lparr>p11 = p11 Z + zi, p12 = p12 Z + zi, p21 = p21 Z + zi, p22 = p22 Z + zi\<rparr>"

text \<open>Lines 85 to 88: division of the four entries by \<open>Z0\<close>.\<close>

definition normalize :: "real \<Rightarrow> twoport \<Rightarrow> twoport option" where
  "normalize Z0 Zo = do {
     z11o \<leftarrow> cdiv (p11 Zo) (of_real Z0);
     z12o \<leftarrow> cdiv (p12 Zo) (of_real Z0);
     z21o \<leftarrow> cdiv (p21 Zo) (of_real Z0);
     z22o \<leftarrow> cdiv (p22 Zo) (of_real Z0);
     Some \<lparr>p11 = z11o, p12 = z12o, p21 = z21o, p22 = z22o\<rparr>
   }"

text \<open>Lines 90 to 94: normalized impedance to scattering.\<close>

definition del4 :: "twoport \<Rightarrow> complex" where
  "del4 z = (p11 z + 1) * (p22 z + 1) - p12 z * p21 z"

definition z_to_s :: "twoport \<Rightarrow> twoport option" where
  "z_to_s z = do {
     s11i \<leftarrow> cdiv ((p11 z - 1) * (p22 z + 1) - p12 z * p21 z) (del4 z);
     s12i \<leftarrow> cdiv (2 * p12 z) (del4 z);
     s21i \<leftarrow> cdiv (2 * p21 z) (del4 z);
     s22i \<leftarrow> cdiv ((p11 z + 1) * (p22 z - 1) - p12 z * p21 z) (del4 z);
     Some \<lparr>p11 = s11i, p12 = s12i, p21 = s21i, p22 = s22i\<rparr>
   }"

text \<open>
  Lines 97 to 104: \<open>np.abs\<close> is the modulus. \<open>np.angle(z, deg=True)\<close> is the \<open>arctan2\<close>
  of the imaginary and the real part in doubles, in degrees, between -180 and 180 with
  both ends included: for a result on the negative real axis it returns 180 or -180 by the
  sign of the zero, or of the rounding error, in the imaginary part. Real numbers carry
  neither, so the function is the parameter \<open>angle\<close> of the model, and what is proved
  below holds whatever it returns.
\<close>

definition rect_to_polar :: "(complex \<Rightarrow> real) \<Rightarrow> twoport \<Rightarrow> polar" where
  "rect_to_polar angle s =
     \<lparr>mag11 = cmod (p11 s), ang11 = angle (p11 s),
      mag21 = cmod (p21 s), ang21 = angle (p21 s),
      mag12 = cmod (p12 s), ang12 = angle (p12 s),
      mag22 = cmod (p22 s), ang22 = angle (p22 s)\<rparr>"

subsection \<open>The loop of \<open>calcCommGateParam\<close>\<close>

text \<open>Lines 51 to 94 for one row: the final scattering parameters \<open>s11i\<close> to \<open>s22i\<close>.\<close>

definition row_sparams :: "real \<Rightarrow> real \<Rightarrow> real \<Rightarrow> real list \<Rightarrow> twoport option" where
  "row_sparams Z0 M L r = do {
     ys \<leftarrow> s_to_y (polar_to_rect r);
     s \<leftarrow> y_to_s (topology ys);
     Z \<leftarrow> s_to_z Z0 s;
     z \<leftarrow> normalize Z0 (add_inductor (Zind (r ! 0) M L) Z);
     z_to_s z
   }"

text \<open>
  One iteration. Reading \<open>data[i, k]\<close> for \<open>k\<close> up to 8 raises \<open>IndexError\<close> on a
  row with fewer than 9 columns, and so does writing \<open>s[i, k]\<close> when \<open>col\<close> is below 9.
\<close>

definition calc_row ::
  "(complex \<Rightarrow> real) \<Rightarrow> real \<Rightarrow> real \<Rightarrow> real \<Rightarrow> nat \<Rightarrow> real list \<Rightarrow> error + out_row" where
  "calc_row angle Z0 M L col r =
     (if length r < 9 \<or> col < 9 then Inl IndexError
      else Inr \<lparr>o_freq = r ! 0,
                o_sparams = map_option (rect_to_polar angle) (row_sparams Z0 M L r),
                o_pad = replicate (col - 9) 0\<rparr>)"

text \<open>The loop over the rows of \<open>data\<close>; an exception in one iteration ends the call.\<close>

fun calcCommGateParam ::
  "(complex \<Rightarrow> real) \<Rightarrow> real \<Rightarrow> real \<Rightarrow> real \<Rightarrow> nat \<Rightarrow> real list list \<Rightarrow> error + out_row list" where
  "calcCommGateParam angle Z0 M L col [] = Inr []"
| "calcCommGateParam angle Z0 M L col (r # rs) =
     (case calc_row angle Z0 M L col r of
        Inl e \<Rightarrow> Inl e
      | Inr row \<Rightarrow>
          (case calcCommGateParam angle Z0 M L col rs of
             Inl e \<Rightarrow> Inl e
           | Inr rows \<Rightarrow> Inr (row # rows)))"

subsection \<open>Reading the input file: \<open>parseSparamFile\<close>\<close>

text \<open>
  A Python \<open>str\<close> is a sequence of Unicode code points. \<open>isspace\<close> holds of the
  code points that \<open>str.split()\<close> treats as separators.
\<close>

type_synonym pystr = "nat list"

definition isspace :: "nat \<Rightarrow> bool" where
  "isspace c \<longleftrightarrow>
     9 \<le> c \<and> c \<le> 13 \<or> 28 \<le> c \<and> c \<le> 32 \<or> c = 133 \<or> c = 160 \<or> c = 5760 \<or>
     8192 \<le> c \<and> c \<le> 8202 \<or> c = 8232 \<or> c = 8233 \<or> c = 8239 \<or> c = 8287 \<or> c = 12288"

text \<open>
  \<open>line.split()\<close>: the maximal runs of code points that are not whitespace.
  \<open>tok\<close> is the token read so far.
\<close>

fun split_from :: "pystr \<Rightarrow> pystr \<Rightarrow> pystr list" where
  "split_from tok [] = (if tok = [] then [] else [tok])"
| "split_from tok (c # cs) =
     (if isspace c then (if tok = [] then split_from [] cs else tok # split_from [] cs)
      else split_from (tok @ [c]) cs)"

definition str_split :: "pystr \<Rightarrow> pystr list" where
  "str_split line = split_from [] line"

definition startswith :: "pystr \<Rightarrow> pystr \<Rightarrow> bool" where
  "startswith line prefix \<longleftrightarrow> take (length prefix) line = prefix"

text \<open>
  \<open>list(map(float, tokens))\<close>. Python's built-in \<open>float\<close> is the parameter \<open>fl\<close>, with
  \<open>None\<close> for a \<open>ValueError\<close>; the first token that does not parse ends the conversion.
\<close>

fun map_float :: "(pystr \<Rightarrow> 'a option) \<Rightarrow> pystr list \<Rightarrow> 'a list option" where
  "map_float fl [] = Some []"
| "map_float fl (t # ts) =
     (case fl t of
        None \<Rightarrow> None
      | Some v \<Rightarrow> (case map_float fl ts of None \<Rightarrow> None | Some vs \<Rightarrow> Some (v # vs)))"

text \<open>
  The loop over the lines of the file, which are given as a list in place of the file name.
  The code points 33 and 35 are \<open>!\<close> and \<open>#\<close>.
\<close>

fun parseSparamFile :: "(pystr \<Rightarrow> 'a option) \<Rightarrow> pystr list \<Rightarrow> nat \<Rightarrow> 'a list list" where
  "parseSparamFile fl [] col = []"
| "parseSparamFile fl (line # rest) col =
     (if startswith line [33] \<or> startswith line [35] then parseSparamFile fl rest col
      else
        (case map_float fl (str_split line) of
           None \<Rightarrow> parseSparamFile fl rest col
         | Some parsed_line \<Rightarrow>
             if length parsed_line = col then parsed_line # parseSparamFile fl rest col
             else parseSparamFile fl rest col))"

subsection \<open>\<open>process_file\<close>\<close>

text \<open>
  The constants of \<open>process_file\<close>, the parse and the conversion. The result is what
  \<open>np.savetxt\<close> is given to write; \<open>Inl\<close> is an exception, which \<open>process_file\<close>
  catches and reports in a dialog.
\<close>

definition process_file ::
  "(complex \<Rightarrow> real) \<Rightarrow> (pystr \<Rightarrow> real option) \<Rightarrow> pystr list \<Rightarrow> real \<Rightarrow> error + out_row list" where
  "process_file angle fl input_file inductance =
     (let Z0 = 50; col = 9; M = 1000000; L = inductance * (1 / 1000000000);
          spdat = parseSparamFile fl input_file col
      in calcCommGateParam angle Z0 M L col spdat)"

subsection \<open>Reference definitions from the specification\<close>

text \<open>
  The shorter chain of the zero-inductance property, as the specification words it:
  scattering to admittance, topology transform, admittance to scattering, and nothing else.
\<close>

definition short_chain :: "real list \<Rightarrow> twoport option" where
  "short_chain r = s_to_y (polar_to_rect r) \<bind> (\<lambda>ys. y_to_s (topology ys))"

definition short_chain_row :: "(complex \<Rightarrow> real) \<Rightarrow> real list \<Rightarrow> out_row" where
  "short_chain_row angle r =
     \<lparr>o_freq = r ! 0, o_sparams = map_option (rect_to_polar angle) (short_chain r), o_pad = []\<rparr>"

text \<open>
  The lines that the specification says reach the core: no leading \<open>!\<close> or \<open>#\<close>,
  every token a number, and \<open>col\<close> of them.
\<close>

definition spec_accepts :: "(pystr \<Rightarrow> 'a option) \<Rightarrow> nat \<Rightarrow> pystr \<Rightarrow> bool" where
  "spec_accepts fl col line \<longleftrightarrow>
     \<not> startswith line [33] \<and> \<not> startswith line [35] \<and>
     (\<forall>t \<in> set (str_split line). fl t \<noteq> None) \<and>
     length (str_split line) = col"

section \<open>Properties\<close>

subsection \<open>The stages as closed formulas\<close>

lemma s_to_y_eq:
  "s_to_y s =
     (if del6 s = 0 then None
      else Some \<lparr>p11 = ((1 - p11 s) * (1 + p22 s) + p12 s * p21 s) / del6 s,
                 p12 = - 2 * p12 s / del6 s,
                 p21 = - 2 * p21 s / del6 s,
                 p22 = ((1 + p11 s) * (1 - p22 s) + p12 s * p21 s) / del6 s\<rparr>)"
  by (simp add: s_to_y_def cdiv_def)

lemma y_to_s_eq:
  "y_to_s y =
     (if del2 y = 0 then None
      else Some \<lparr>p11 = ((1 - p11 y) * (1 + p22 y) + p12 y * p21 y) / del2 y,
                 p12 = - 2 * p12 y / del2 y,
                 p21 = - 2 * p21 y / del2 y,
                 p22 = ((1 + p11 y) * (1 - p22 y) + p12 y * p21 y) / del2 y\<rparr>)"
  by (simp add: y_to_s_def cdiv_def)

lemma s_to_z_eq:
  "s_to_z Z0 s =
     (if del5 s = 0 then None
      else Some \<lparr>p11 = of_real Z0 * ((1 + p11 s) * (1 - p22 s) + p12 s * p21 s) / del5 s,
                 p12 = of_real Z0 * (2 * p12 s) / del5 s,
                 p21 = of_real Z0 * (2 * p21 s) / del5 s,
                 p22 = of_real Z0 * ((1 + p22 s) * (1 - p11 s) + p12 s * p21 s) / del5 s\<rparr>)"
  by (simp add: s_to_z_def cdiv_def)

lemma normalize_eq:
  "normalize Z0 Z =
     (if Z0 = 0 then None
      else Some \<lparr>p11 = p11 Z / of_real Z0, p12 = p12 Z / of_real Z0,
                 p21 = p21 Z / of_real Z0, p22 = p22 Z / of_real Z0\<rparr>)"
  by (simp add: normalize_def cdiv_def)

lemma z_to_s_eq:
  "z_to_s z =
     (if del4 z = 0 then None
      else Some \<lparr>p11 = ((p11 z - 1) * (p22 z + 1) - p12 z * p21 z) / del4 z,
                 p12 = 2 * p12 z / del4 z,
                 p21 = 2 * p21 z / del4 z,
                 p22 = ((p11 z + 1) * (p22 z - 1) - p12 z * p21 z) / del4 z\<rparr>)"
  by (simp add: z_to_s_def cdiv_def)


subsection \<open>The algebra of the two round trips, on plain complex numbers\<close>

lemma frac_prod_diff:
  fixes x y u v D :: complex
  shows "(x / D) * (y / D) - (u / D) * (v / D) = (x * y - u * v) / (D * D)"
  by (simp add: diff_divide_distrib)

lemma frac_prod_sum:
  fixes x y u v D :: complex
  shows "(x / D) * (y / D) + (u / D) * (v / D) = (x * y + u * v) / (D * D)"
  by (simp add: add_divide_distrib)

lemma sy_alg:
  fixes a b c d D :: complex
  assumes nz: "D \<noteq> 0" and D: "D = (1 + a) * (1 + d) - b * c"
    and y11: "y11 = ((1 - a) * (1 + d) + b * c) / D"
    and y12: "y12 = - 2 * b / D"
    and y21: "y21 = - 2 * c / D"
    and y22: "y22 = ((1 + a) * (1 - d) + b * c) / D"
    and E: "E = (1 + y11) * (1 + y22) - y12 * y21"
  shows "E = 4 / D"
    and "((1 - y11) * (1 + y22) + y12 * y21) / E = a"
    and "- 2 * y12 / E = b"
    and "- 2 * y21 / E = c"
    and "((1 + y11) * (1 - y22) + y12 * y21) / E = d"
proof -
  have p11: "1 + y11 = 2 * (1 + d) / D"
  proof -
    have "1 + y11 = (D + ((1 - a) * (1 + d) + b * c)) / D"
      using nz by (simp add: y11 add_divide_distrib)
    also have "D + ((1 - a) * (1 + d) + b * c) = 2 * (1 + d)"
      by (simp add: D algebra_simps)
    finally show ?thesis .
  qed
  have p22: "1 + y22 = 2 * (1 + a) / D"
  proof -
    have "1 + y22 = (D + ((1 + a) * (1 - d) + b * c)) / D"
      using nz by (simp add: y22 add_divide_distrib)
    also have "D + ((1 + a) * (1 - d) + b * c) = 2 * (1 + a)"
      by (simp add: D algebra_simps)
    finally show ?thesis .
  qed
  have m11: "1 - y11 = 2 * (a * (1 + d) - b * c) / D"
  proof -
    have "1 - y11 = (D - ((1 - a) * (1 + d) + b * c)) / D"
      using nz by (simp add: y11 diff_divide_distrib)
    also have "D - ((1 - a) * (1 + d) + b * c) = 2 * (a * (1 + d) - b * c)"
      by (simp add: D algebra_simps)
    finally show ?thesis .
  qed
  have m22: "1 - y22 = 2 * (d * (1 + a) - b * c) / D"
  proof -
    have "1 - y22 = (D - ((1 + a) * (1 - d) + b * c)) / D"
      using nz by (simp add: y22 diff_divide_distrib)
    also have "D - ((1 + a) * (1 - d) + b * c) = 2 * (d * (1 + a) - b * c)"
      by (simp add: D algebra_simps)
    finally show ?thesis .
  qed
  have "E = (2 * (1 + d) * (2 * (1 + a)) - (- 2 * b) * (- 2 * c)) / (D * D)"
    unfolding E p11 p22 y12 y21 by (rule frac_prod_diff)
  also have "2 * (1 + d) * (2 * (1 + a)) - (- 2 * b) * (- 2 * c) = 4 * ((1 + a) * (1 + d) - b * c)"
    by (simp add: algebra_simps)
  also have "4 * ((1 + a) * (1 + d) - b * c) / (D * D) = 4 * D / (D * D)"
    by (simp only: D [symmetric])
  also have "\<dots> = 4 / D" using nz by simp
  finally show E4: "E = 4 / D" .
  have "(1 - y11) * (1 + y22) + y12 * y21 =
      (2 * (a * (1 + d) - b * c) * (2 * (1 + a)) + (- 2 * b) * (- 2 * c)) / (D * D)"
    unfolding m11 p22 y12 y21 by (rule frac_prod_sum)
  also have "2 * (a * (1 + d) - b * c) * (2 * (1 + a)) + (- 2 * b) * (- 2 * c) =
      4 * a * ((1 + a) * (1 + d) - b * c)"
    by (simp add: algebra_simps)
  also have "4 * a * ((1 + a) * (1 + d) - b * c) / (D * D) = 4 * a * D / (D * D)"
    by (simp only: D [symmetric])
  also have "\<dots> = 4 * a / D" using nz by simp
  finally show "((1 - y11) * (1 + y22) + y12 * y21) / E = a"
    using nz by (simp add: E4)
  show "- 2 * y12 / E = b" using nz by (simp add: E4 y12)
  show "- 2 * y21 / E = c" using nz by (simp add: E4 y21)
  have "(1 + y11) * (1 - y22) + y12 * y21 =
      (2 * (1 + d) * (2 * (d * (1 + a) - b * c)) + (- 2 * b) * (- 2 * c)) / (D * D)"
    unfolding p11 m22 y12 y21 by (rule frac_prod_sum)
  also have "2 * (1 + d) * (2 * (d * (1 + a) - b * c)) + (- 2 * b) * (- 2 * c) =
      4 * d * ((1 + a) * (1 + d) - b * c)"
    by (simp add: algebra_simps)
  also have "4 * d * ((1 + a) * (1 + d) - b * c) / (D * D) = 4 * d * D / (D * D)"
    by (simp only: D [symmetric])
  also have "\<dots> = 4 * d / D" using nz by simp
  finally show "((1 + y11) * (1 - y22) + y12 * y21) / E = d"
    using nz by (simp add: E4)
qed

lemma zs_alg:
  fixes a b c d D :: complex
  assumes nz: "D \<noteq> 0" and D: "D = (1 - a) * (1 - d) - b * c"
    and z11: "z11 = ((1 + a) * (1 - d) + b * c) / D"
    and z12: "z12 = 2 * b / D"
    and z21: "z21 = 2 * c / D"
    and z22: "z22 = ((1 + d) * (1 - a) + b * c) / D"
    and E: "E = (z11 + 1) * (z22 + 1) - z12 * z21"
  shows "E = 4 / D"
    and "((z11 - 1) * (z22 + 1) - z12 * z21) / E = a"
    and "2 * z12 / E = b"
    and "2 * z21 / E = c"
    and "((z11 + 1) * (z22 - 1) - z12 * z21) / E = d"
proof -
  have p11: "z11 + 1 = 2 * (1 - d) / D"
  proof -
    have "z11 + 1 = (((1 + a) * (1 - d) + b * c) + D) / D"
      using nz by (simp add: z11 add_divide_distrib)
    also have "((1 + a) * (1 - d) + b * c) + D = 2 * (1 - d)"
      by (simp add: D algebra_simps)
    finally show ?thesis .
  qed
  have p22: "z22 + 1 = 2 * (1 - a) / D"
  proof -
    have "z22 + 1 = (((1 + d) * (1 - a) + b * c) + D) / D"
      using nz by (simp add: z22 add_divide_distrib)
    also have "((1 + d) * (1 - a) + b * c) + D = 2 * (1 - a)"
      by (simp add: D algebra_simps)
    finally show ?thesis .
  qed
  have m11: "z11 - 1 = 2 * (a * (1 - d) + b * c) / D"
  proof -
    have "z11 - 1 = (((1 + a) * (1 - d) + b * c) - D) / D"
      using nz by (simp add: z11 diff_divide_distrib)
    also have "((1 + a) * (1 - d) + b * c) - D = 2 * (a * (1 - d) + b * c)"
      by (simp add: D algebra_simps)
    finally show ?thesis .
  qed
  have m22: "z22 - 1 = 2 * (d * (1 - a) + b * c) / D"
  proof -
    have "z22 - 1 = (((1 + d) * (1 - a) + b * c) - D) / D"
      using nz by (simp add: z22 diff_divide_distrib)
    also have "((1 + d) * (1 - a) + b * c) - D = 2 * (d * (1 - a) + b * c)"
      by (simp add: D algebra_simps)
    finally show ?thesis .
  qed
  have "E = (2 * (1 - d) * (2 * (1 - a)) - 2 * b * (2 * c)) / (D * D)"
    unfolding E p11 p22 z12 z21 by (rule frac_prod_diff)
  also have "2 * (1 - d) * (2 * (1 - a)) - 2 * b * (2 * c) = 4 * ((1 - a) * (1 - d) - b * c)"
    by (simp add: algebra_simps)
  also have "4 * ((1 - a) * (1 - d) - b * c) / (D * D) = 4 * D / (D * D)"
    by (simp only: D [symmetric])
  also have "\<dots> = 4 / D" using nz by simp
  finally show E4: "E = 4 / D" .
  have "(z11 - 1) * (z22 + 1) - z12 * z21 =
      (2 * (a * (1 - d) + b * c) * (2 * (1 - a)) - 2 * b * (2 * c)) / (D * D)"
    unfolding m11 p22 z12 z21 by (rule frac_prod_diff)
  also have "2 * (a * (1 - d) + b * c) * (2 * (1 - a)) - 2 * b * (2 * c) =
      4 * a * ((1 - a) * (1 - d) - b * c)"
    by (simp add: algebra_simps)
  also have "4 * a * ((1 - a) * (1 - d) - b * c) / (D * D) = 4 * a * D / (D * D)"
    by (simp only: D [symmetric])
  also have "\<dots> = 4 * a / D" using nz by simp
  finally show "((z11 - 1) * (z22 + 1) - z12 * z21) / E = a"
    using nz by (simp add: E4)
  show "2 * z12 / E = b" using nz by (simp add: E4 z12)
  show "2 * z21 / E = c" using nz by (simp add: E4 z21)
  have "(z11 + 1) * (z22 - 1) - z12 * z21 =
      (2 * (1 - d) * (2 * (d * (1 - a) + b * c)) - 2 * b * (2 * c)) / (D * D)"
    unfolding p11 m22 z12 z21 by (rule frac_prod_diff)
  also have "2 * (1 - d) * (2 * (d * (1 - a) + b * c)) - 2 * b * (2 * c) =
      4 * d * ((1 - a) * (1 - d) - b * c)"
    by (simp add: algebra_simps)
  also have "4 * d * ((1 - a) * (1 - d) - b * c) / (D * D) = 4 * d * D / (D * D)"
    by (simp only: D [symmetric])
  also have "\<dots> = 4 * d / D" using nz by simp
  finally show "((z11 + 1) * (z22 - 1) - z12 * z21) / E = d"
    using nz by (simp add: E4)
qed

subsection \<open>Round trips of the converters\<close>

lemma y_roundtrip:
  assumes nz: "del6 s \<noteq> 0"
  shows "s_to_y s \<bind> y_to_s = Some s"
proof -
  define y11 where "y11 = ((1 - p11 s) * (1 + p22 s) + p12 s * p21 s) / del6 s"
  define y12 where "y12 = - 2 * p12 s / del6 s"
  define y21 where "y21 = - 2 * p21 s / del6 s"
  define y22 where "y22 = ((1 + p11 s) * (1 - p22 s) + p12 s * p21 s) / del6 s"
  define E where "E = (1 + y11) * (1 + y22) - y12 * y21"
  note alg = sy_alg [OF nz del6_def y11_def y12_def y21_def y22_def E_def]
  have sy: "s_to_y s = Some \<lparr>p11 = y11, p12 = y12, p21 = y21, p22 = y22\<rparr>"
    using nz by (simp add: s_to_y_eq y11_def y12_def y21_def y22_def)
  have d2: "del2 \<lparr>p11 = y11, p12 = y12, p21 = y21, p22 = y22\<rparr> = E"
    by (simp add: del2_def E_def)
  have Enz: "E \<noteq> 0" using nz by (simp add: alg(1))
  have "y_to_s \<lparr>p11 = y11, p12 = y12, p21 = y21, p22 = y22\<rparr> =
      Some \<lparr>p11 = ((1 - y11) * (1 + y22) + y12 * y21) / E, p12 = - 2 * y12 / E,
            p21 = - 2 * y21 / E, p22 = ((1 + y11) * (1 - y22) + y12 * y21) / E\<rparr>"
    using Enz by (simp add: y_to_s_eq d2)
  also have "\<dots> = Some \<lparr>p11 = p11 s, p12 = p12 s, p21 = p21 s, p22 = p22 s\<rparr>"
    by (simp only: alg(2-5))
  finally show ?thesis by (simp add: sy)
qed

lemma z_roundtrip_norm:
  assumes nz: "del5 s \<noteq> 0" and Z0: "Z0 \<noteq> 0" and sz: "s_to_z Z0 s = Some Z"
  shows "normalize Z0 Z \<bind> z_to_s = Some s"
proof -
  define z11 where "z11 = ((1 + p11 s) * (1 - p22 s) + p12 s * p21 s) / del5 s"
  define z12 where "z12 = 2 * p12 s / del5 s"
  define z21 where "z21 = 2 * p21 s / del5 s"
  define z22 where "z22 = ((1 + p22 s) * (1 - p11 s) + p12 s * p21 s) / del5 s"
  define E where "E = (z11 + 1) * (z22 + 1) - z12 * z21"
  note alg = zs_alg [OF nz del5_def z11_def z12_def z21_def z22_def E_def]
  have Z: "Z = \<lparr>p11 = of_real Z0 * ((1 + p11 s) * (1 - p22 s) + p12 s * p21 s) / del5 s,
                 p12 = of_real Z0 * (2 * p12 s) / del5 s,
                 p21 = of_real Z0 * (2 * p21 s) / del5 s,
                 p22 = of_real Z0 * ((1 + p22 s) * (1 - p11 s) + p12 s * p21 s) / del5 s\<rparr>"
    using sz nz by (simp add: s_to_z_eq)
  have nm: "normalize Z0 Z = Some \<lparr>p11 = z11, p12 = z12, p21 = z21, p22 = z22\<rparr>"
    using Z0 by (simp add: normalize_eq Z z11_def z12_def z21_def z22_def)
  have d4: "del4 \<lparr>p11 = z11, p12 = z12, p21 = z21, p22 = z22\<rparr> = E"
    by (simp add: del4_def E_def)
  have Enz: "E \<noteq> 0" using nz by (simp add: alg(1))
  have "z_to_s \<lparr>p11 = z11, p12 = z12, p21 = z21, p22 = z22\<rparr> =
      Some \<lparr>p11 = ((z11 - 1) * (z22 + 1) - z12 * z21) / E, p12 = 2 * z12 / E,
            p21 = 2 * z21 / E, p22 = ((z11 + 1) * (z22 - 1) - z12 * z21) / E\<rparr>"
    using Enz by (simp add: z_to_s_eq d4)
  also have "\<dots> = Some \<lparr>p11 = p11 s, p12 = p12 s, p21 = p21 s, p22 = p22 s\<rparr>"
    by (simp only: alg(2-5))
  finally show ?thesis by (simp add: nm)
qed

lemma s_to_z_Some: "del5 s \<noteq> 0 \<Longrightarrow> \<exists>Z. s_to_z Z0 s = Some Z"
  by (simp add: s_to_z_eq)

lemma z_roundtrip:
  assumes nz: "del5 s \<noteq> 0" and Z0: "Z0 \<noteq> 0"
  shows "s_to_z Z0 s \<bind> normalize Z0 \<bind> z_to_s = Some s"
proof -
  obtain Z where sz: "s_to_z Z0 s = Some Z" using s_to_z_Some [OF nz] by blast
  show ?thesis using z_roundtrip_norm [OF nz Z0 sz] by (simp add: sz)
qed

subsection \<open>Claims about the converters and the topology transform\<close>

text \<open>
  C1 (as amended). Applying the topology transform twice recovers the admittance
  parameters it started from, for every two-port: the transform is its own inverse.
\<close>

theorem topology_involution: "topology (topology y) = y"
  by (simp add: topology_def)

text \<open>
  The claim as written, that a second application never recovers the common-source
  parameters, fails at the two-port with entries 1, 2 + i, 3 and 4 - i.
\<close>

theorem topology_twice_counterexample:
  "topology (topology \<lparr>p11 = 1, p12 = 2 + \<i>, p21 = 3, p22 = 4 - \<i>\<rparr>) =
     \<lparr>p11 = 1, p12 = 2 + \<i>, p21 = 3, p22 = 4 - \<i>\<rparr>"
  by (simp add: topology_def)

text \<open>
  C2. When the determinant of the scattering-to-admittance conversion is not zero, that
  conversion followed by admittance-to-scattering returns the four parameters it started
  from; when the determinant of the scattering-to-impedance conversion and \<open>Z0\<close> are not
  zero, that conversion followed by the division by \<open>Z0\<close> and impedance-to-scattering
  returns them too. The determinant of the second conversion is then never zero.
\<close>

theorem converters_roundtrip:
  "(del6 s \<noteq> 0 \<longrightarrow> s_to_y s \<bind> y_to_s = Some s) \<and>
   (del5 s \<noteq> 0 \<and> Z0 \<noteq> 0 \<longrightarrow> s_to_z Z0 s \<bind> normalize Z0 \<bind> z_to_s = Some s)"
  using y_roundtrip z_roundtrip by blast

theorem converters_roundtrip_witness:
  "del6 \<lparr>p11 = 1, p12 = 2, p21 = 3, p22 = 0\<rparr> \<noteq> 0 \<and>
   s_to_y \<lparr>p11 = 1, p12 = 2, p21 = 3, p22 = 0\<rparr> \<bind> y_to_s =
     Some \<lparr>p11 = 1, p12 = 2, p21 = 3, p22 = 0\<rparr> \<and>
   del5 \<lparr>p11 = 1, p12 = 2, p21 = 3, p22 = 0\<rparr> \<noteq> 0 \<and> (50 :: real) \<noteq> 0 \<and>
   s_to_z 50 \<lparr>p11 = 1, p12 = 2, p21 = 3, p22 = 0\<rparr> \<bind> normalize 50 \<bind> z_to_s =
     Some \<lparr>p11 = 1, p12 = 2, p21 = 3, p22 = 0\<rparr>"
  using converters_roundtrip [of "\<lparr>p11 = 1, p12 = 2, p21 = 3, p22 = 0\<rparr>" 50]
  by (simp add: del6_def del5_def)

text \<open>
  C4. The scattering-to-admittance converter returns
  \<open>Y11 = ((1 - S11) (1 + S22) + S12 S21) / \<Delta>\<close>, \<open>Y12 = - 2 S12 / \<Delta>\<close>,
  \<open>Y21 = - 2 S21 / \<Delta>\<close> and \<open>Y22 = ((1 + S11) (1 - S22) + S12 S21) / \<Delta>\<close> with
  \<open>\<Delta> = (1 + S11) (1 + S22) - S12 S21\<close>; at \<open>\<Delta> = 0\<close> the four quotients are the
  non-finite results of a division by zero.
\<close>

theorem s_to_y_formula:
  "s_to_y \<lparr>p11 = S11, p12 = S12, p21 = S21, p22 = S22\<rparr> =
     (let \<Delta> = (1 + S11) * (1 + S22) - S12 * S21 in
      if \<Delta> = 0 then None
      else Some \<lparr>p11 = ((1 - S11) * (1 + S22) + S12 * S21) / \<Delta>,
                 p12 = - 2 * S12 / \<Delta>,
                 p21 = - 2 * S21 / \<Delta>,
                 p22 = ((1 + S11) * (1 - S22) + S12 * S21) / \<Delta>\<rparr>)"
  by (simp add: s_to_y_eq del6_def Let_def)

theorem s_to_y_formula_witness:
  "s_to_y \<lparr>p11 = 1, p12 = 2, p21 = 3, p22 = 0\<rparr> =
     Some \<lparr>p11 = - (3 / 2), p12 = 1, p21 = 3 / 2, p22 = - 2\<rparr>"
  using s_to_y_formula [of 1 2 3 0] by simp

text \<open>
  C6. When \<open>(1 + S11) (1 + S22) = S12 S21\<close>, none of the four quotients of the
  scattering-to-admittance conversion is a finite number and the conversion has no finite
  result: no default and no clamped value takes its place. The caller of the loop body
  receives the row with its frequency and non-finite parameters.
\<close>

theorem singular_s_to_y:
  assumes "(1 + p11 s) * (1 + p22 s) = p12 s * p21 s"
  shows "(\<forall>num. cdiv num (del6 s) = None) \<and> s_to_y s = None \<and>
         (polar_to_rect r = s \<longrightarrow> row_sparams Z0 M L r = None) \<and>
         (polar_to_rect r = s \<and> 9 \<le> length r \<and> 9 \<le> col \<longrightarrow>
            calc_row angle Z0 M L col r =
              Inr \<lparr>o_freq = r ! 0, o_sparams = None, o_pad = replicate (col - 9) 0\<rparr>)"
proof -
  have d: "del6 s = 0" using assms by (simp add: del6_def)
  have sy: "s_to_y s = None" by (simp add: s_to_y_eq d)
  have row: "row_sparams Z0 M L r = None" if "polar_to_rect r = s"
    using that by (simp add: row_sparams_def sy)
  show ?thesis
    using d sy row by (auto simp: cdiv_def calc_row_def)
qed

theorem singular_s_to_y_witness:
  "\<forall>angle.
   (1 + p11 (polar_to_rect [1, 0, 0, 1, 0, 1, 0, 0, 0])) *
     (1 + p22 (polar_to_rect [1, 0, 0, 1, 0, 1, 0, 0, 0])) =
   p12 (polar_to_rect [1, 0, 0, 1, 0, 1, 0, 0, 0]) *
     p21 (polar_to_rect [1, 0, 0, 1, 0, 1, 0, 0, 0]) \<and>
   s_to_y (polar_to_rect [1, 0, 0, 1, 0, 1, 0, 0, 0]) = None \<and>
   calc_row angle 50 1000000 0 9 [1, 0, 0, 1, 0, 1, 0, 0, 0] =
     Inr \<lparr>o_freq = 1, o_sparams = None, o_pad = []\<rparr>"
proof (intro allI)
  fix angle :: "complex \<Rightarrow> real"
  show "(1 + p11 (polar_to_rect [1, 0, 0, 1, 0, 1, 0, 0, 0])) *
       (1 + p22 (polar_to_rect [1, 0, 0, 1, 0, 1, 0, 0, 0])) =
     p12 (polar_to_rect [1, 0, 0, 1, 0, 1, 0, 0, 0]) *
       p21 (polar_to_rect [1, 0, 0, 1, 0, 1, 0, 0, 0]) \<and>
     s_to_y (polar_to_rect [1, 0, 0, 1, 0, 1, 0, 0, 0]) = None \<and>
     calc_row angle 50 1000000 0 9 [1, 0, 0, 1, 0, 1, 0, 0, 0] =
       Inr \<lparr>o_freq = 1, o_sparams = None, o_pad = []\<rparr>"
  proof -
    have h: "(1 + p11 (polar_to_rect [1, 0, 0, 1, 0, 1, 0, 0, 0])) *
       (1 + p22 (polar_to_rect [1, 0, 0, 1, 0, 1, 0, 0, 0])) =
     p12 (polar_to_rect [1, 0, 0, 1, 0, 1, 0, 0, 0]) *
       p21 (polar_to_rect [1, 0, 0, 1, 0, 1, 0, 0, 0])"
      by (simp add: polar_to_rect_def from_polar_def)
    show ?thesis
      using h singular_s_to_y [OF h, of "[1, 0, 0, 1, 0, 1, 0, 0, 0]" 50 1000000 0 9
          angle]
      by simp
  qed
qed

subsection \<open>The loop as a row-wise relation\<close>

lemma calc_row_Inr_iff:
  "calc_row angle Z0 M L col r = Inr out \<longleftrightarrow>
     9 \<le> length r \<and> 9 \<le> col \<and>
     out = \<lparr>o_freq = r ! 0, o_sparams = map_option (rect_to_polar angle) (row_sparams Z0 M L r),
            o_pad = replicate (col - 9) 0\<rparr>"
  by (auto simp: calc_row_def)

lemma calcCommGateParam_Inr_iff:
  "calcCommGateParam angle Z0 M L col data = Inr outs \<longleftrightarrow>
     list_all2 (\<lambda>r out. calc_row angle Z0 M L col r = Inr out) data outs"
proof (induction data arbitrary: outs)
  case Nil
  show ?case by auto
next
  case (Cons r rs)
  show ?case
  proof (cases "calc_row angle Z0 M L col r")
    case (Inl e)
    then show ?thesis by (auto simp: list_all2_Cons1)
  next
    case (Inr row)
    note row = this
    show ?thesis
    proof (cases "calcCommGateParam angle Z0 M L col rs")
      case (Inl e)
      with row Cons.IH show ?thesis by (auto simp: list_all2_Cons1)
    next
      case (Inr rows)
      with row Cons.IH show ?thesis by (auto simp: list_all2_Cons1)
    qed
  qed
qed

lemma calcCommGateParam_total:
  assumes "9 \<le> col" and "\<forall>r \<in> set data. 9 \<le> length r"
  shows "calcCommGateParam angle Z0 M L col data =
     Inr (map (\<lambda>r. \<lparr>o_freq = r ! 0,
                     o_sparams = map_option (rect_to_polar angle) (row_sparams Z0 M L r),
                     o_pad = replicate (col - 9) 0\<rparr>) data)"
  using assms
  by (simp add: calcCommGateParam_Inr_iff list_all2_conv_all_nth calc_row_Inr_iff)

text \<open>
  C7. On a list of rows with at least nine columns each (and \<open>col\<close> at least 9) the loop
  returns one output row per input row, in the same order; output row \<open>i\<close> is the result
  of the loop body on input row \<open>i\<close> alone and carries its frequency; and on the input
  rearranged by a permutation of the indices the output is rearranged the same way.
\<close>

theorem per_record_map:
  assumes "9 \<le> col" and "\<forall>r \<in> set data. 9 \<le> length r"
  shows "\<exists>outs. calcCommGateParam angle Z0 M L col data = Inr outs \<and> length outs = length data \<and>
     (\<forall>i < length data.
        calc_row angle Z0 M L col (data ! i) = Inr (outs ! i) \<and> o_freq (outs ! i) = data ! i ! 0) \<and>
     (\<forall>p. distinct p \<and> set p = {0 ..< length data} \<longrightarrow>
        calcCommGateParam angle Z0 M L col (map (\<lambda>i. data ! i) p) = Inr (map (\<lambda>i. outs ! i) p))"
proof -
  define f where "f = (\<lambda>r. \<lparr>o_freq = r ! 0,
                     o_sparams = map_option (rect_to_polar angle) (row_sparams Z0 M L r),
                     o_pad = replicate (col - 9) (0 :: real)\<rparr>)"
  have tot: "calcCommGateParam angle Z0 M L col data = Inr (map f data)"
    unfolding f_def by (rule calcCommGateParam_total [OF assms])
  have row: "calc_row angle Z0 M L col (data ! i) = Inr (map f data ! i) \<and>
             o_freq (map f data ! i) = data ! i ! 0" if "i < length data" for i
    using that assms by (simp add: calc_row_Inr_iff f_def)
  have perm: "calcCommGateParam angle Z0 M L col (map (\<lambda>i. data ! i) p) =
              Inr (map (\<lambda>i. map f data ! i) p)"
    if "set p = {0 ..< length data}" for p
  proof -
    have "\<forall>r \<in> set (map (\<lambda>i. data ! i) p). 9 \<le> length r"
      using that assms(2) by auto
    from calcCommGateParam_total [OF assms(1) this, of angle Z0 M L]
    have "calcCommGateParam angle Z0 M L col (map (\<lambda>i. data ! i) p) =
            Inr (map f (map (\<lambda>i. data ! i) p))"
      by (simp add: f_def)
    moreover have "map f (map (\<lambda>i. data ! i) p) = map (\<lambda>i. map f data ! i) p"
      using that by auto
    ultimately show ?thesis by simp
  qed
  show ?thesis
    using tot row perm by (intro exI [of _ "map f data"]) simp
qed

theorem per_record_map_witness:
  "\<forall>angle.
   (9 :: nat) \<le> 9 \<and>
   length [1 :: real, 0, 0, 0, 0, 0, 0, 0, 0] = 9 \<and>
   length [2 :: real, 0, 0, 1, 0, 1, 0, 0, 0] = 9 \<and>
   (\<exists>outs.
      calcCommGateParam angle 50 1000000 0 9
        [[1, 0, 0, 0, 0, 0, 0, 0, 0], [2, 0, 0, 1, 0, 1, 0, 0, 0]] = Inr outs \<and>
      length outs = 2 \<and>
      calc_row angle 50 1000000 0 9 [1, 0, 0, 0, 0, 0, 0, 0, 0] = Inr (outs ! 0) \<and>
      calc_row angle 50 1000000 0 9 [2, 0, 0, 1, 0, 1, 0, 0, 0] = Inr (outs ! 1) \<and>
      o_freq (outs ! 0) = 1 \<and> o_freq (outs ! 1) = 2 \<and>
      calcCommGateParam angle 50 1000000 0 9
        [[2, 0, 0, 1, 0, 1, 0, 0, 0], [1, 0, 0, 0, 0, 0, 0, 0, 0]] = Inr [outs ! 1, outs ! 0])"
proof (intro allI)
  fix angle :: "complex \<Rightarrow> real"
  show "(9 :: nat) \<le> 9 \<and>
     length [1 :: real, 0, 0, 0, 0, 0, 0, 0, 0] = 9 \<and>
     length [2 :: real, 0, 0, 1, 0, 1, 0, 0, 0] = 9 \<and>
     (\<exists>outs.
        calcCommGateParam angle 50 1000000 0 9
          [[1, 0, 0, 0, 0, 0, 0, 0, 0], [2, 0, 0, 1, 0, 1, 0, 0, 0]] = Inr outs \<and>
        length outs = 2 \<and>
        calc_row angle 50 1000000 0 9 [1, 0, 0, 0, 0, 0, 0, 0, 0] = Inr (outs ! 0) \<and>
        calc_row angle 50 1000000 0 9 [2, 0, 0, 1, 0, 1, 0, 0, 0] = Inr (outs ! 1) \<and>
        o_freq (outs ! 0) = 1 \<and> o_freq (outs ! 1) = 2 \<and>
        calcCommGateParam angle 50 1000000 0 9
          [[2, 0, 0, 1, 0, 1, 0, 0, 0], [1, 0, 0, 0, 0, 0, 0, 0, 0]] = Inr [outs ! 1, outs ! 0])"
  proof -
    let ?data = "[[1, 0, 0, 0, 0, 0, 0, 0, 0], [2, 0, 0, 1, 0, 1, 0, 0, 0 :: real]]"
    have c: "(9 :: nat) \<le> 9" by simp
    have d: "\<forall>r \<in> set ?data. 9 \<le> length r" by simp
    from per_record_map [OF c d, of angle 50 1000000 0]
    obtain outs where o: "calcCommGateParam angle 50 1000000 0 9 ?data = Inr outs"
      and len: "length outs = length ?data"
      and rows: "\<forall>i < length ?data.
          calc_row angle 50 1000000 0 9 (?data ! i) = Inr (outs ! i) \<and>
          o_freq (outs ! i) = ?data ! i ! 0"
      and perm: "\<forall>p. distinct p \<and> set p = {0 ..< length ?data} \<longrightarrow>
          calcCommGateParam angle 50 1000000 0 9 (map (\<lambda>i. ?data ! i) p) =
          Inr (map (\<lambda>i. outs ! i) p)"
      by blast
    have r0: "calc_row angle 50 1000000 0 9 (?data ! 0) = Inr (outs ! 0) \<and>
          o_freq (outs ! 0) = ?data ! 0 ! 0"
      using rows [rule_format, of 0] by simp
    have r1: "calc_row angle 50 1000000 0 9 (?data ! 1) = Inr (outs ! 1) \<and>
          o_freq (outs ! 1) = ?data ! 1 ! 0"
      using rows [rule_format, of 1] by simp
    have "distinct [1, 0 :: nat] \<and> set [1, 0 :: nat] = {0 ..< length ?data}"
      by auto
    with perm [rule_format, of "[1, 0]"]
    have "calcCommGateParam angle 50 1000000 0 9 (map (\<lambda>i. ?data ! i) [1, 0]) =
          Inr (map (\<lambda>i. outs ! i) [1, 0])"
      by simp
    hence p: "calcCommGateParam angle 50 1000000 0 9
          [[2, 0, 0, 1, 0, 1, 0, 0, 0], [1, 0, 0, 0, 0, 0, 0, 0, 0]] = Inr [outs ! 1, outs ! 0]"
      by simp
    show ?thesis
      using o len r0 r1 p by (intro conjI exI [of _ outs]) simp_all
  qed
qed

subsection \<open>An example row\<close>

lemma row_sparams_example:
  "row_sparams 50 1000000 0 [1, 0, 0, 0, 0, 0, 0, 0, 0] =
     Some \<lparr>p11 = - (1 / 5), p12 = 2 / 5, p21 = 2 / 5, p22 = 1 / 5\<rparr>"
  by (simp add: row_sparams_def polar_to_rect_def from_polar_def s_to_y_eq del6_def
      topology_def y_to_s_eq del2_def s_to_z_eq del5_def Zind_def add_inductor_def
      normalize_eq z_to_s_eq del4_def)

lemma short_chain_example:
  "short_chain [1, 0, 0, 0, 0, 0, 0, 0, 0] =
     Some \<lparr>p11 = - (1 / 5), p12 = 2 / 5, p21 = 2 / 5, p22 = 1 / 5\<rparr>"
  by (simp add: short_chain_def polar_to_rect_def from_polar_def s_to_y_eq del6_def
      topology_def y_to_s_eq del2_def)

lemma s_to_z_chain_example:
  "s_to_y (polar_to_rect [1, 0, 0, 0, 0, 0, 0, 0, 0]) \<bind>
     (\<lambda>ys. y_to_s (topology ys) \<bind> (\<lambda>s. s_to_z 50 s \<bind> G)) =
   G \<lparr>p11 = 50, p12 = 50, p21 = 50, p22 = 100\<rparr>"
  by (simp add: polar_to_rect_def from_polar_def s_to_y_eq del6_def
      topology_def y_to_s_eq del2_def s_to_z_eq del5_def)

subsection \<open>Zero inductance\<close>

lemma row_sparams_zero_L:
  assumes Z0: "Z0 \<noteq> 0" and sc: "short_chain r = Some s" and nz: "del5 s \<noteq> 0"
  shows "row_sparams Z0 M 0 r = Some s"
proof -
  from sc obtain ys where ys: "s_to_y (polar_to_rect r) = Some ys"
    and s: "y_to_s (topology ys) = Some s"
    by (auto simp: short_chain_def bind_eq_Some_conv)
  obtain Z where Z: "s_to_z Z0 s = Some Z" using s_to_z_Some [OF nz] by blast
  have add: "add_inductor (Zind (r ! 0) M 0) Z = Z"
    by (simp add: Zind_def add_inductor_def)
  show ?thesis
    using z_roundtrip_norm [OF nz Z0 Z] by (simp add: row_sparams_def ys s Z add)
qed

subsection \<open>The parser as a filter\<close>

lemma map_float_eq:
  "map_float fl ts =
     (if \<forall>t \<in> set ts. fl t \<noteq> None then Some (map (\<lambda>t. the (fl t)) ts) else None)"
  by (induction ts) (auto split: option.splits)

lemma parseSparamFile_filter:
  "parseSparamFile fl lines col =
     map (\<lambda>line. map (\<lambda>t. the (fl t)) (str_split line)) (filter (spec_accepts fl col) lines)"
  by (induction lines) (auto simp: map_float_eq spec_accepts_def split: option.splits)

lemma parseSparamFile_length:
  "r \<in> set (parseSparamFile fl lines col) \<Longrightarrow> length r = col"
  by (auto simp: parseSparamFile_filter spec_accepts_def)

lemma process_file_eq:
  "process_file angle fl lines nH =
     calcCommGateParam angle 50 1000000 (nH * (1 / 1000000000)) 9 (parseSparamFile fl lines 9)"
  by (simp add: process_file_def)

subsection \<open>The inductor\<close>

lemma row_sparams_inject:
  "row_sparams Z0 M L r =
     s_to_y (polar_to_rect r) \<bind> (\<lambda>ys. y_to_s (topology ys) \<bind> (\<lambda>s. s_to_z Z0 s \<bind> (\<lambda>Z.
       normalize Z0
         \<lparr>p11 = p11 Z + \<i> * 2 * of_real pi * of_real (r ! 0) * of_real M * of_real L,
          p12 = p12 Z + \<i> * 2 * of_real pi * of_real (r ! 0) * of_real M * of_real L,
          p21 = p21 Z + \<i> * 2 * of_real pi * of_real (r ! 0) * of_real M * of_real L,
          p22 = p22 Z + \<i> * 2 * of_real pi * of_real (r ! 0) * of_real M * of_real L\<rparr>
       \<bind> z_to_s)))"
  by (simp add: row_sparams_def Zind_def add_inductor_def)

text \<open>
  C5. For every record the loop computes the output parameters from the impedance matrix
  \<open>Z\<close> of the scattering-to-impedance conversion with the one value
  \<open>Z_ind = j 2 \<pi> frequency M L\<close> added to each of its four entries, \<open>frequency\<close> being
  column 0 of the record; nothing else of the row depends on \<open>M\<close> or \<open>L\<close>. In
  \<open>process_file\<close>, \<open>M\<close> is \<open>1e6\<close> and \<open>L\<close> is the inductance in nanohenries times
  \<open>1e-9\<close>.
\<close>

theorem inductor_injection:
  "(9 \<le> col \<and> (\<forall>r \<in> set data. 9 \<le> length r) \<longrightarrow>
      calcCommGateParam angle Z0 M L col data =
        Inr (map (\<lambda>r.
          \<lparr>o_freq = r ! 0,
           o_sparams = map_option (rect_to_polar angle)
             (s_to_y (polar_to_rect r) \<bind> (\<lambda>ys. y_to_s (topology ys) \<bind> (\<lambda>s.
                s_to_z Z0 s \<bind> (\<lambda>Z.
                  normalize Z0
                    \<lparr>p11 = p11 Z + \<i> * 2 * of_real pi * of_real (r ! 0) * of_real M * of_real L,
                     p12 = p12 Z + \<i> * 2 * of_real pi * of_real (r ! 0) * of_real M * of_real L,
                     p21 = p21 Z + \<i> * 2 * of_real pi * of_real (r ! 0) * of_real M * of_real L,
                     p22 = p22 Z + \<i> * 2 * of_real pi * of_real (r ! 0) * of_real M * of_real L\<rparr>
                  \<bind> z_to_s)))),
           o_pad = replicate (col - 9) 0\<rparr>) data)) \<and>
   process_file angle fl lines nH =
     Inr (map (\<lambda>r.
       \<lparr>o_freq = r ! 0,
        o_sparams = map_option (rect_to_polar angle)
          (s_to_y (polar_to_rect r) \<bind> (\<lambda>ys. y_to_s (topology ys) \<bind> (\<lambda>s.
             s_to_z 50 s \<bind> (\<lambda>Z.
               normalize 50
                 \<lparr>p11 = p11 Z + \<i> * 2 * of_real pi * of_real (r ! 0) *
                          of_real 1000000 * of_real (nH * (1 / 1000000000)),
                  p12 = p12 Z + \<i> * 2 * of_real pi * of_real (r ! 0) *
                          of_real 1000000 * of_real (nH * (1 / 1000000000)),
                  p21 = p21 Z + \<i> * 2 * of_real pi * of_real (r ! 0) *
                          of_real 1000000 * of_real (nH * (1 / 1000000000)),
                  p22 = p22 Z + \<i> * 2 * of_real pi * of_real (r ! 0) *
                          of_real 1000000 * of_real (nH * (1 / 1000000000))\<rparr>
               \<bind> z_to_s)))),
        o_pad = []\<rparr>) (parseSparamFile fl lines 9))"
proof -
  have loop: "calcCommGateParam angle Z0 M L col data =
      Inr (map (\<lambda>r. \<lparr>o_freq = r ! 0,
                      o_sparams = map_option (rect_to_polar angle) (row_sparams Z0 M L r),
                      o_pad = replicate (col - 9) 0\<rparr>) data)"
    if "9 \<le> col" and "\<forall>r \<in> set data. 9 \<le> length r" for Z0 M L col data
    using that by (rule calcCommGateParam_total)
  have len: "\<forall>r \<in> set (parseSparamFile fl lines 9). 9 \<le> length r"
    using parseSparamFile_length [of _ fl lines 9] by auto
  have "process_file angle fl lines nH =
      Inr (map (\<lambda>r. \<lparr>o_freq = r ! 0,
                      o_sparams = map_option (rect_to_polar angle)
                        (row_sparams 50 1000000 (nH * (1 / 1000000000)) r),
                      o_pad = replicate (9 - 9) 0\<rparr>) (parseSparamFile fl lines 9))"
    unfolding process_file_eq by (rule loop [OF order_refl len])
  thus ?thesis
    using loop [of col data Z0 M L] by (simp only: row_sparams_inject) simp
qed

text \<open>
  C3. When every record has non-zero determinants (the shorter chain has a finite result
  \<open>s\<close>, and the determinant of the scattering-to-impedance conversion at \<open>s\<close> is not
  zero), the loop with inductance 0 returns for each record the row of the shorter chain:
  scattering to admittance, topology transform, admittance to scattering. This holds for
  the loop with any non-zero \<open>Z0\<close>, and for \<open>process_file\<close> with inductance input 0.
\<close>

theorem zero_inductance:
  "(Z0 \<noteq> 0 \<and> (\<forall>r \<in> set data. 9 \<le> length r \<and> (\<exists>s. short_chain r = Some s \<and> del5 s \<noteq> 0)) \<longrightarrow>
      calcCommGateParam angle Z0 M 0 9 data = Inr (map (short_chain_row angle) data)) \<and>
   ((\<forall>r \<in> set (parseSparamFile fl lines 9). \<exists>s. short_chain r = Some s \<and> del5 s \<noteq> 0) \<longrightarrow>
      process_file angle fl lines 0 = Inr (map (short_chain_row angle) (parseSparamFile fl lines 9)))"
proof -
  have core: "calcCommGateParam angle Z0 M 0 9 data = Inr (map (short_chain_row angle) data)"
    if Z0: "Z0 \<noteq> 0"
      and rows: "\<forall>r \<in> set data. 9 \<le> length r \<and> (\<exists>s. short_chain r = Some s \<and> del5 s \<noteq> 0)"
    for Z0 M data
  proof -
    have len: "\<forall>r \<in> set data. 9 \<le> length r" using rows by blast
    have "row_sparams Z0 M 0 r = short_chain r" if "r \<in> set data" for r
    proof -
      from rows that obtain s where "short_chain r = Some s" "del5 s \<noteq> 0" by blast
      thus ?thesis using row_sparams_zero_L [OF Z0] by simp
    qed
    hence "map (\<lambda>r. \<lparr>o_freq = r ! 0,
                     o_sparams = map_option (rect_to_polar angle) (row_sparams Z0 M 0 r),
                     o_pad = replicate (9 - 9) 0\<rparr>) data = map (short_chain_row angle) data"
      by (simp add: short_chain_row_def)
    with calcCommGateParam_total [OF order_refl len, of angle Z0 M 0] show ?thesis by simp
  qed
  have pf: "process_file angle fl lines 0 = Inr (map (short_chain_row angle) (parseSparamFile fl lines 9))"
    if rows: "\<forall>r \<in> set (parseSparamFile fl lines 9). \<exists>s. short_chain r = Some s \<and> del5 s \<noteq> 0"
  proof -
    have "\<forall>r \<in> set (parseSparamFile fl lines 9).
            9 \<le> length r \<and> (\<exists>s. short_chain r = Some s \<and> del5 s \<noteq> 0)"
      using rows parseSparamFile_length [of _ fl lines 9] by auto
    from core [OF _ this, of 50 1000000] show ?thesis
      by (simp add: process_file_eq)
  qed
  show ?thesis using core pf by blast
qed

text \<open>
  C9. \<open>parseSparamFile\<close> returns, in the order of the file, the parsed tokens of exactly
  the lines that do not start with \<open>!\<close> or \<open>#\<close>, whose tokens all parse as numbers and that
  have \<open>col\<close> tokens; \<open>process_file\<close> passes these rows, with \<open>col = 9\<close>, to the loop. A
  line that is left out produces no error: the function is total and returns only rows.
\<close>

theorem ingestion_filter:
  "parseSparamFile fl lines col =
     map (\<lambda>line. map (\<lambda>t. the (fl t)) (str_split line)) (filter (spec_accepts fl col) lines) \<and>
   process_file angle fl' lines nH =
     calcCommGateParam angle 50 1000000 (nH * (1 / 1000000000)) 9
       (map (\<lambda>line. map (\<lambda>t. the (fl' t)) (str_split line)) (filter (spec_accepts fl' 9) lines))"
  by (simp add: process_file_eq parseSparamFile_filter)

text \<open>
  C10. On no rows the loop returns no rows, and \<open>process_file\<close> on a file none of whose
  lines is a data row gives \<open>np.savetxt\<close> an empty result, with no exception.
\<close>

theorem empty_input:
  "calcCommGateParam angle Z0 M L col [] = Inr [] \<and>
   ((\<forall>line \<in> set lines. \<not> spec_accepts fl 9 line) \<longrightarrow> process_file angle fl lines nH = Inr [])"
proof -
  have "parseSparamFile fl lines 9 = []" if "\<forall>line \<in> set lines. \<not> spec_accepts fl 9 line"
    using that by (simp add: parseSparamFile_filter filter_empty_conv)
  thus ?thesis by (simp add: process_file_eq)
qed

subsection \<open>A small input file\<close>

text \<open>
  The lines \<open>! F\<close>, \<open># Hz\<close>, \<open>1 0 0 0 0 0 0 0 0\<close>, \<open>1 0 x 0 0 0 0 0 0\<close>, \<open>1 0 0\<close> and an
  empty line, as code points, the last four with their newline. The parser of numbers
  used on them knows the tokens \<open>1\<close> and \<open>0\<close> only.
\<close>

lemma str_split_examples:
  "str_split [33, 32, 70] = [[33], [70]]"
  "str_split [35, 32, 72, 122] = [[35], [72, 122]]"
  "str_split [49, 32, 48, 32, 48, 32, 48, 32, 48, 32, 48, 32, 48, 32, 48, 32, 48, 10] =
     [[49], [48], [48], [48], [48], [48], [48], [48], [48]]"
  "str_split [49, 32, 48, 32, 120, 32, 48, 32, 48, 32, 48, 32, 48, 32, 48, 32, 48, 10] =
     [[49], [48], [120], [48], [48], [48], [48], [48], [48]]"
  "str_split [49, 32, 48, 32, 48, 10] = [[49], [48], [48]]"
  "str_split [10] = []"
  by (simp_all add: str_split_def isspace_def)

lemma spec_accepts_examples:
  "\<not> spec_accepts (\<lambda>t. if t = [49] then Some 1 else if t = [48] then Some 0 else None) 9
       [33, 32, 70]"
  "\<not> spec_accepts (\<lambda>t. if t = [49] then Some 1 else if t = [48] then Some 0 else None) 9
       [35, 32, 72, 122]"
  "spec_accepts (\<lambda>t. if t = [49] then Some 1 else if t = [48] then Some 0 else None) 9
     [49, 32, 48, 32, 48, 32, 48, 32, 48, 32, 48, 32, 48, 32, 48, 32, 48, 10]"
  "\<not> spec_accepts (\<lambda>t. if t = [49] then Some 1 else if t = [48] then Some 0 else None) 9
       [49, 32, 48, 32, 120, 32, 48, 32, 48, 32, 48, 32, 48, 32, 48, 32, 48, 10]"
  "\<not> spec_accepts (\<lambda>t. if t = [49] then Some 1 else if t = [48] then Some 0 else None) 9
       [49, 32, 48, 32, 48, 10]"
  "\<not> spec_accepts (\<lambda>t. if t = [49] then Some 1 else if t = [48] then Some 0 else None) 9
       [10]"
  by (simp_all add: spec_accepts_def str_split_examples startswith_def)

lemma del5_example:
  "del5 \<lparr>p11 = - (1 / 5), p12 = 2 / 5, p21 = 2 / 5, p22 = 1 / 5\<rparr> \<noteq> 0"
  by (simp add: del5_def)

subsection \<open>The claims at concrete inputs\<close>

theorem ingestion_filter_witness:
  "\<forall>angle.
   parseSparamFile (\<lambda>t. if t = [49] then Some 1 else if t = [48] then Some 0 else None)
     [[33, 32, 70], [35, 32, 72, 122],
      [49, 32, 48, 32, 48, 32, 48, 32, 48, 32, 48, 32, 48, 32, 48, 32, 48, 10],
      [49, 32, 48, 32, 120, 32, 48, 32, 48, 32, 48, 32, 48, 32, 48, 32, 48, 10],
      [49, 32, 48, 32, 48, 10], [10]] 9 =
     [[1 :: real, 0, 0, 0, 0, 0, 0, 0, 0]] \<and>
   process_file angle (\<lambda>t. if t = [49] then Some 1 else if t = [48] then Some 0 else None)
     [[33, 32, 70], [35, 32, 72, 122],
      [49, 32, 48, 32, 48, 32, 48, 32, 48, 32, 48, 32, 48, 32, 48, 32, 48, 10],
      [49, 32, 48, 32, 120, 32, 48, 32, 48, 32, 48, 32, 48, 32, 48, 32, 48, 10],
      [49, 32, 48, 32, 48, 10], [10]] 2 =
     calcCommGateParam angle 50 1000000 (2 * (1 / 1000000000)) 9 [[1, 0, 0, 0, 0, 0, 0, 0, 0]]"
proof (intro allI)
  fix angle :: "complex \<Rightarrow> real"
  show "parseSparamFile (\<lambda>t. if t = [49] then Some 1 else if t = [48] then Some 0 else None)
       [[33, 32, 70], [35, 32, 72, 122],
        [49, 32, 48, 32, 48, 32, 48, 32, 48, 32, 48, 32, 48, 32, 48, 32, 48, 10],
        [49, 32, 48, 32, 120, 32, 48, 32, 48, 32, 48, 32, 48, 32, 48, 32, 48, 10],
        [49, 32, 48, 32, 48, 10], [10]] 9 =
       [[1 :: real, 0, 0, 0, 0, 0, 0, 0, 0]] \<and>
     process_file angle (\<lambda>t. if t = [49] then Some 1 else if t = [48] then Some 0 else None)
       [[33, 32, 70], [35, 32, 72, 122],
        [49, 32, 48, 32, 48, 32, 48, 32, 48, 32, 48, 32, 48, 32, 48, 32, 48, 10],
        [49, 32, 48, 32, 120, 32, 48, 32, 48, 32, 48, 32, 48, 32, 48, 32, 48, 10],
        [49, 32, 48, 32, 48, 10], [10]] 2 =
       calcCommGateParam angle 50 1000000 (2 * (1 / 1000000000)) 9 [[1, 0, 0, 0, 0, 0, 0, 0, 0]]"
  proof -
    let ?fl = "(\<lambda>t. if t = [49] then Some 1 else if t = [48] then Some 0 else None)
                 :: pystr \<Rightarrow> real option"
    let ?lines = "[[33, 32, 70], [35, 32, 72, 122],
        [49, 32, 48, 32, 48, 32, 48, 32, 48, 32, 48, 32, 48, 32, 48, 32, 48, 10],
        [49, 32, 48, 32, 120, 32, 48, 32, 48, 32, 48, 32, 48, 32, 48, 32, 48, 10],
        [49, 32, 48, 32, 48, 10], [10]]"
    have f: "map (\<lambda>line. map (\<lambda>t. the (?fl t)) (str_split line))
               (filter (spec_accepts ?fl 9) ?lines) = [[1, 0, 0, 0, 0, 0, 0, 0, 0]]"
      by (simp add: spec_accepts_examples str_split_examples)
    from ingestion_filter [of ?fl ?lines 9 angle ?fl 2] show ?thesis
      unfolding f by simp
  qed
qed

theorem empty_input_witness:
  "\<forall>angle.
   \<not> spec_accepts (\<lambda>t. if t = [49] then Some 1 else if t = [48] then Some 0 else None) 9
       [33, 32, 70] \<and>
   \<not> spec_accepts (\<lambda>t. if t = [49] then Some 1 else if t = [48] then Some 0 else None) 9
       [49, 32, 48, 32, 48, 10] \<and>
   \<not> spec_accepts (\<lambda>t. if t = [49] then Some 1 else if t = [48] then Some 0 else None) 9
       [10] \<and>
   calcCommGateParam angle 50 1000000 (3 * (1 / 1000000000)) 9 [] = Inr [] \<and>
   process_file angle (\<lambda>t. if t = [49] then Some 1 else if t = [48] then Some 0 else None)
     [[33, 32, 70], [49, 32, 48, 32, 48, 10], [10]] 3 = Inr []"
proof (intro allI)
  fix angle :: "complex \<Rightarrow> real"
  show "\<not> spec_accepts (\<lambda>t. if t = [49] then Some 1 else if t = [48] then Some 0 else None) 9
         [33, 32, 70] \<and>
     \<not> spec_accepts (\<lambda>t. if t = [49] then Some 1 else if t = [48] then Some 0 else None) 9
         [49, 32, 48, 32, 48, 10] \<and>
     \<not> spec_accepts (\<lambda>t. if t = [49] then Some 1 else if t = [48] then Some 0 else None) 9
         [10] \<and>
     calcCommGateParam angle 50 1000000 (3 * (1 / 1000000000)) 9 [] = Inr [] \<and>
     process_file angle (\<lambda>t. if t = [49] then Some 1 else if t = [48] then Some 0 else None)
       [[33, 32, 70], [49, 32, 48, 32, 48, 10], [10]] 3 = Inr []"
  proof -
    let ?fl = "(\<lambda>t. if t = [49] then Some 1 else if t = [48] then Some 0 else None)
                 :: pystr \<Rightarrow> real option"
    have h: "\<forall>line \<in> set [[33, 32, 70], [49, 32, 48, 32, 48, 10], [10]].
               \<not> spec_accepts ?fl 9 line"
      by (simp add: spec_accepts_examples)
    from empty_input [of angle 50 1000000 "3 * (1 / 1000000000)" 9
        "[[33, 32, 70], [49, 32, 48, 32, 48, 10], [10]]" ?fl 3] h
    show ?thesis by (simp add: spec_accepts_examples)
  qed
qed

theorem zero_inductance_witness:
  "\<forall>angle.
   (50 :: real) \<noteq> 0 \<and> length [1 :: real, 0, 0, 0, 0, 0, 0, 0, 0] = 9 \<and>
   short_chain [1, 0, 0, 0, 0, 0, 0, 0, 0] =
     Some \<lparr>p11 = - (1 / 5), p12 = 2 / 5, p21 = 2 / 5, p22 = 1 / 5\<rparr> \<and>
   del5 \<lparr>p11 = - (1 / 5), p12 = 2 / 5, p21 = 2 / 5, p22 = 1 / 5\<rparr> \<noteq> 0 \<and>
   calcCommGateParam angle 50 1000000 0 9 [[1, 0, 0, 0, 0, 0, 0, 0, 0]] =
     Inr [short_chain_row angle [1, 0, 0, 0, 0, 0, 0, 0, 0]] \<and>
   parseSparamFile (\<lambda>t. if t = [49] then Some 1 else if t = [48] then Some 0 else None)
     [[33, 32, 70],
      [49, 32, 48, 32, 48, 32, 48, 32, 48, 32, 48, 32, 48, 32, 48, 32, 48, 10]] 9 =
     [[1 :: real, 0, 0, 0, 0, 0, 0, 0, 0]] \<and>
   process_file angle (\<lambda>t. if t = [49] then Some 1 else if t = [48] then Some 0 else None)
     [[33, 32, 70],
      [49, 32, 48, 32, 48, 32, 48, 32, 48, 32, 48, 32, 48, 32, 48, 32, 48, 10]] 0 =
     Inr [short_chain_row angle [1, 0, 0, 0, 0, 0, 0, 0, 0]]"
proof (intro allI)
  fix angle :: "complex \<Rightarrow> real"
  show "(50 :: real) \<noteq> 0 \<and> length [1 :: real, 0, 0, 0, 0, 0, 0, 0, 0] = 9 \<and>
     short_chain [1, 0, 0, 0, 0, 0, 0, 0, 0] =
       Some \<lparr>p11 = - (1 / 5), p12 = 2 / 5, p21 = 2 / 5, p22 = 1 / 5\<rparr> \<and>
     del5 \<lparr>p11 = - (1 / 5), p12 = 2 / 5, p21 = 2 / 5, p22 = 1 / 5\<rparr> \<noteq> 0 \<and>
     calcCommGateParam angle 50 1000000 0 9 [[1, 0, 0, 0, 0, 0, 0, 0, 0]] =
       Inr [short_chain_row angle [1, 0, 0, 0, 0, 0, 0, 0, 0]] \<and>
     parseSparamFile (\<lambda>t. if t = [49] then Some 1 else if t = [48] then Some 0 else None)
       [[33, 32, 70],
        [49, 32, 48, 32, 48, 32, 48, 32, 48, 32, 48, 32, 48, 32, 48, 32, 48, 10]] 9 =
       [[1 :: real, 0, 0, 0, 0, 0, 0, 0, 0]] \<and>
     process_file angle (\<lambda>t. if t = [49] then Some 1 else if t = [48] then Some 0 else None)
       [[33, 32, 70],
        [49, 32, 48, 32, 48, 32, 48, 32, 48, 32, 48, 32, 48, 32, 48, 32, 48, 10]] 0 =
       Inr [short_chain_row angle [1, 0, 0, 0, 0, 0, 0, 0, 0]]"
  proof -
    let ?fl = "(\<lambda>t. if t = [49] then Some 1 else if t = [48] then Some 0 else None)
                 :: pystr \<Rightarrow> real option"
    let ?lines = "[[33, 32, 70],
        [49, 32, 48, 32, 48, 32, 48, 32, 48, 32, 48, 32, 48, 32, 48, 32, 48, 10]]"
    have p: "parseSparamFile ?fl ?lines 9 = [[1, 0, 0, 0, 0, 0, 0, 0, 0]]"
      by (simp add: parseSparamFile_filter spec_accepts_examples str_split_examples)
    have a: "(50 :: real) \<noteq> 0 \<and>
        (\<forall>r \<in> set [[1, 0, 0, 0, 0, 0, 0, 0, 0]].
           9 \<le> length r \<and> (\<exists>s. short_chain r = Some s \<and> del5 s \<noteq> 0))"
      by (simp add: short_chain_example del5_example)
    have b: "\<forall>r \<in> set (parseSparamFile ?fl ?lines 9).
               \<exists>s. short_chain r = Some s \<and> del5 s \<noteq> 0"
      unfolding p by (simp add: short_chain_example del5_example)
    from zero_inductance [of 50 "[[1, 0, 0, 0, 0, 0, 0, 0, 0]]" angle 1000000 ?fl ?lines] a b
    have "calcCommGateParam angle 50 1000000 0 9 [[1, 0, 0, 0, 0, 0, 0, 0, 0]] =
            Inr (map (short_chain_row angle) [[1, 0, 0, 0, 0, 0, 0, 0, 0]])"
      and "process_file angle ?fl ?lines 0 =
            Inr (map (short_chain_row angle) (parseSparamFile ?fl ?lines 9))"
      by blast+
    thus ?thesis
      unfolding p by (simp add: short_chain_example del5_example)
  qed
qed

theorem inductor_injection_witness:
  "\<forall>angle.
   (9 :: nat) \<le> 9 \<and> length [1 :: real, 0, 0, 0, 0, 0, 0, 0, 0] = 9 \<and>
   calcCommGateParam angle 50 1000000 (2 * (1 / 1000000000)) 9
     [[1, 0, 0, 0, 0, 0, 0, 0, 0]] =
     Inr [\<lparr>o_freq = 1,
           o_sparams = map_option (rect_to_polar angle)
             (normalize 50
                \<lparr>p11 = 50 + \<i> * 2 * of_real pi * 1 * 1000000 * (2 * (1 / 1000000000)),
                 p12 = 50 + \<i> * 2 * of_real pi * 1 * 1000000 * (2 * (1 / 1000000000)),
                 p21 = 50 + \<i> * 2 * of_real pi * 1 * 1000000 * (2 * (1 / 1000000000)),
                 p22 = 100 + \<i> * 2 * of_real pi * 1 * 1000000 * (2 * (1 / 1000000000))\<rparr>
              \<bind> z_to_s),
           o_pad = []\<rparr>] \<and>
   process_file angle
     (\<lambda>t. if t = [49] then Some 1 else if t = [48] then Some 0 else None)
     [[33, 32, 70],
      [49, 32, 48, 32, 48, 32, 48, 32, 48, 32, 48, 32, 48, 32, 48, 32, 48, 10]] 2 =
     Inr [\<lparr>o_freq = 1,
           o_sparams = map_option (rect_to_polar angle)
             (normalize 50
                \<lparr>p11 = 50 + \<i> * 2 * of_real pi * 1 * 1000000 * (2 * (1 / 1000000000)),
                 p12 = 50 + \<i> * 2 * of_real pi * 1 * 1000000 * (2 * (1 / 1000000000)),
                 p21 = 50 + \<i> * 2 * of_real pi * 1 * 1000000 * (2 * (1 / 1000000000)),
                 p22 = 100 + \<i> * 2 * of_real pi * 1 * 1000000 * (2 * (1 / 1000000000))\<rparr>
              \<bind> z_to_s),
           o_pad = []\<rparr>]"
proof (intro allI)
  fix angle :: "complex \<Rightarrow> real"
  show "(9 :: nat) \<le> 9 \<and> length [1 :: real, 0, 0, 0, 0, 0, 0, 0, 0] = 9 \<and>
     calcCommGateParam angle 50 1000000 (2 * (1 / 1000000000)) 9
       [[1, 0, 0, 0, 0, 0, 0, 0, 0]] =
       Inr [\<lparr>o_freq = 1,
             o_sparams = map_option (rect_to_polar angle)
               (normalize 50
                  \<lparr>p11 = 50 + \<i> * 2 * of_real pi * 1 * 1000000 * (2 * (1 / 1000000000)),
                   p12 = 50 + \<i> * 2 * of_real pi * 1 * 1000000 * (2 * (1 / 1000000000)),
                   p21 = 50 + \<i> * 2 * of_real pi * 1 * 1000000 * (2 * (1 / 1000000000)),
                   p22 = 100 + \<i> * 2 * of_real pi * 1 * 1000000 * (2 * (1 / 1000000000))\<rparr>
                \<bind> z_to_s),
             o_pad = []\<rparr>] \<and>
     process_file angle
       (\<lambda>t. if t = [49] then Some 1 else if t = [48] then Some 0 else None)
       [[33, 32, 70],
        [49, 32, 48, 32, 48, 32, 48, 32, 48, 32, 48, 32, 48, 32, 48, 32, 48, 10]] 2 =
       Inr [\<lparr>o_freq = 1,
             o_sparams = map_option (rect_to_polar angle)
               (normalize 50
                  \<lparr>p11 = 50 + \<i> * 2 * of_real pi * 1 * 1000000 * (2 * (1 / 1000000000)),
                   p12 = 50 + \<i> * 2 * of_real pi * 1 * 1000000 * (2 * (1 / 1000000000)),
                   p21 = 50 + \<i> * 2 * of_real pi * 1 * 1000000 * (2 * (1 / 1000000000)),
                   p22 = 100 + \<i> * 2 * of_real pi * 1 * 1000000 * (2 * (1 / 1000000000))\<rparr>
                \<bind> z_to_s),
             o_pad = []\<rparr>]"
  proof -
    let ?fl = "(\<lambda>t. if t = [49] then Some 1 else if t = [48] then Some 0 else None)
                 :: pystr \<Rightarrow> real option"
    let ?lines = "[[33, 32, 70],
        [49, 32, 48, 32, 48, 32, 48, 32, 48, 32, 48, 32, 48, 32, 48, 32, 48, 10]]"
    let ?data = "[[1, 0, 0, 0, 0, 0, 0, 0, 0 :: real]]"
    have p: "parseSparamFile ?fl ?lines 9 = ?data"
      by (simp add: parseSparamFile_filter spec_accepts_examples str_split_examples)
    have h: "(9 :: nat) \<le> 9 \<and> (\<forall>r \<in> set ?data. 9 \<le> length r)" by simp
    from inductor_injection [of 9 ?data angle 50 1000000
        "2 * (1 / 1000000000)" ?fl ?lines 2] h
    show ?thesis
      unfolding p by (simp add: s_to_z_chain_example)
  qed
qed

end
